theory Spec2Isabelle
  imports Complex_Main "HOL-Library.Word"
begin

unbundle bit_operations_syntax

section \<open>JavaScript values\<close>

text \<open>
  The typed arrays of the interpreter (\<^verbatim>\<open>Uint8Array\<close>) hold bytes; every other field is a
  JavaScript number. The numbers the interpreter computes are integers, so they are
  modelled as \<^typ>\<open>int\<close>. Two fields can leave the integers: \<^verbatim>\<open>Array.prototype.pop\<close> on an
  empty array returns \<^verbatim>\<open>undefined\<close>, and \<^verbatim>\<open>undefined + 2\<close> is \<^verbatim>\<open>NaN\<close>; both can reach the
  program counter and the call stack.
\<close>

type_synonym u8 = "8 word"

datatype jsnum = Undefined | NaN | Num int

text \<open>\<^verbatim>\<open>p += k\<close> and \<^verbatim>\<open>p + k\<close> for a number \<open>k\<close>.\<close>

definition js_add :: "jsnum \<Rightarrow> int \<Rightarrow> jsnum" where
  "js_add p k = (case p of Num n \<Rightarrow> Num (n + k) | _ \<Rightarrow> NaN)"

section \<open>Renderer\<close>

text \<open>
  \<^verbatim>\<open>this.display = new Array(this.cols * this.rows)\<close> is an array of holes: reading a
  cell that was never written gives \<^verbatim>\<open>undefined\<close> (here \<open>None\<close>). A JavaScript array
  accepts a write at any integer key (it grows, or stores the key as a property), so the
  cells are a map from \<^typ>\<open>int\<close>. The canvas is modelled by the rectangles the last
  \<^verbatim>\<open>render()\<close> filled, each by its top-left corner.
\<close>

record Renderer =
  scale :: int
  display :: "int \<Rightarrow> int option"
  canvas :: "(int \<times> int) list"

definition cols :: int where
  "cols = 64"

definition rows :: int where
  "rows = 32"

definition newRenderer :: "int \<Rightarrow> Renderer" where
  "newRenderer sc = \<lparr> scale = sc, display = (\<lambda>_. None), canvas = [] \<rparr>"

text \<open>
  \<^verbatim>\<open>ToInt32\<close> of a cell, as \<^verbatim>\<open>^=\<close> reads it: \<^verbatim>\<open>undefined\<close> counts as 0. A cell is drawn by
  \<^verbatim>\<open>render()\<close>, and reported as on by \<^verbatim>\<open>!this.display[pixelLoc]\<close>, when this number is
  not 0.
\<close>

definition cellval :: "(int \<Rightarrow> int option) \<Rightarrow> int \<Rightarrow> int" where
  "cellval d p = (case d p of None \<Rightarrow> 0 | Some b \<Rightarrow> b)"

definition lit :: "Renderer \<Rightarrow> int \<Rightarrow> bool" where
  "lit r p = (cellval (display r) p \<noteq> 0)"

text \<open>
  \<^verbatim>\<open>setPixel(x, y)\<close>: the two wrap tests, the cell index, the XOR with 1, and the result
  \<^verbatim>\<open>!this.display[pixelLoc]\<close>. The renderer is returned updated, with the result.
\<close>

definition setPixel :: "Renderer \<Rightarrow> int \<Rightarrow> int \<Rightarrow> Renderer \<times> bool" where
  "setPixel r x0 y0 =
     (let x = (if x0 > cols then x0 - cols else if x0 < 0 then x0 + cols else x0);
          y = (if y0 > rows then y0 - rows else if y0 < 0 then y0 + rows else y0);
          pixelLoc = x + (y * cols);
          b = cellval (display r) pixelLoc XOR 1
      in (r\<lparr> display := (display r)(pixelLoc \<mapsto> b) \<rparr>, b = 0))"

definition clear :: "Renderer \<Rightarrow> Renderer" where
  "clear r = r\<lparr> display := (\<lambda>_. None) \<rparr>"

text \<open>
  \<^verbatim>\<open>render()\<close> clears the canvas and fills one rectangle for every cell of
  \<open>0 .. cols * rows - 1\<close> that holds a truthy value.
\<close>

definition render :: "Renderer \<Rightarrow> Renderer" where
  "render r =
     r\<lparr> canvas :=
          map (\<lambda>k. ((k mod cols) * scale r, (k div cols) * scale r))
            (filter (\<lambda>k. cellval (display r) k \<noteq> 0) (map int [0 ..< nat (cols * rows)])) \<rparr>"

section \<open>Speaker\<close>

text \<open>
  The speaker is playing when it holds an oscillator; the model keeps the oscillator's
  frequency. \<^verbatim>\<open>play\<close> creates one only when there is none (\<^verbatim>\<open>frequency || 440\<close> is the
  pitch), \<^verbatim>\<open>stop\<close> drops it.
\<close>

record Speaker =
  oscillator :: "int option"

definition play :: "Speaker \<Rightarrow> int \<Rightarrow> Speaker" where
  "play sp frequency =
     (if oscillator sp = None
      then sp\<lparr> oscillator := Some (if frequency = 0 then 440 else frequency) \<rparr>
      else sp)"

definition stop :: "Speaker \<Rightarrow> Speaker" where
  "stop sp = (if oscillator sp \<noteq> None then sp\<lparr> oscillator := None \<rparr> else sp)"

section \<open>Keyboard\<close>

text \<open>
  Modelled from the spec: \<^verbatim>\<open>keyboard.js\<close> is imported by \<^verbatim>\<open>chip8.js\<close> but is not among the
  sources. The spec gives its contract: \<open>isPressed(keyCode) -> bool\<close>, and
  \<open>onNextKeyPress\<close>, one pending callback. The keys held down are a parameter of the
  model. The only callback the interpreter registers is the closure of \<^verbatim>\<open>Fx0A\<close>, which
  captures the register index \<open>x\<close>; the model stores that index.
\<close>

record Keyboard =
  keysPressed :: "int \<Rightarrow> bool"
  onNextKeyPress :: "nat option"

definition isKeyPressed :: "Keyboard \<Rightarrow> int \<Rightarrow> bool" where
  "isKeyPressed kb k = keysPressed kb k"

section \<open>CPU state\<close>

text \<open>
  \<^verbatim>\<open>memory\<close> is a \<^verbatim>\<open>Uint8Array(4096)\<close> and \<^verbatim>\<open>v\<close> a \<^verbatim>\<open>Uint8Array(16)\<close>: a store of bytes by
  index. A typed array has a fixed length: a read outside it gives \<^verbatim>\<open>undefined\<close> and a
  write outside it is ignored, which \<open>mem_read\<close> and \<open>mem_write\<close> spell out. The
  registers are only ever indexed by a nibble of the opcode, by the constant \<open>0xF\<close>, or
  by a loop counter bounded by such a nibble, so they are read and written directly.
\<close>

record CPU =
  renderer :: Renderer
  keyboard :: Keyboard
  speaker :: Speaker
  memory :: "nat \<Rightarrow> u8"
  v :: "nat \<Rightarrow> u8"
  i :: int
  delayTimer :: int
  soundTimer :: int
  pc :: jsnum
  stack :: "jsnum list"
  paused :: bool
  speed :: nat

definition newCPU :: "Renderer \<Rightarrow> Keyboard \<Rightarrow> Speaker \<Rightarrow> CPU" where
  "newCPU r kb sp =
     \<lparr> renderer = r, keyboard = kb, speaker = sp,
       memory = (\<lambda>_. 0), v = (\<lambda>_. 0), i = 0,
       delayTimer = 0, soundTimer = 0,
       pc = Num 0x200, stack = [], paused = False, speed = 10 \<rparr>"

definition mem_read :: "(nat \<Rightarrow> u8) \<Rightarrow> int \<Rightarrow> u8 option" where
  "mem_read m a = (if 0 \<le> a \<and> a < 4096 then Some (m (nat a)) else None)"

definition mem_write :: "(nat \<Rightarrow> u8) \<Rightarrow> int \<Rightarrow> u8 \<Rightarrow> (nat \<Rightarrow> u8)" where
  "mem_write m a b = (if 0 \<le> a \<and> a < 4096 then m(nat a := b) else m)"

text \<open>
  A byte read from memory where a number is needed: \<^verbatim>\<open>undefined\<close> becomes 0 under
  \<^verbatim>\<open><<\<close>, \<^verbatim>\<open>|\<close> and \<^verbatim>\<open>&\<close>, and under a store into a \<^verbatim>\<open>Uint8Array\<close>.
\<close>

definition byte_val :: "u8 option \<Rightarrow> int" where
  "byte_val b = (case b of None \<Rightarrow> 0 | Some w \<Rightarrow> uint w)"

definition sprites :: "u8 list" where
  "sprites =
     [0xF0, 0x90, 0x90, 0x90, 0xF0,
      0x20, 0x60, 0x20, 0x20, 0x70,
      0xF0, 0x10, 0xF0, 0x80, 0xF0,
      0xF0, 0x10, 0xF0, 0x10, 0xF0,
      0x90, 0x90, 0xF0, 0x10, 0x10,
      0xF0, 0x80, 0xF0, 0x10, 0xF0,
      0xF0, 0x80, 0xF0, 0x90, 0xF0,
      0xF0, 0x10, 0x20, 0x40, 0x40,
      0xF0, 0x90, 0xF0, 0x90, 0xF0,
      0xF0, 0x90, 0xF0, 0x10, 0xF0,
      0xF0, 0x90, 0xF0, 0x90, 0x90,
      0xE0, 0x90, 0xE0, 0x90, 0xE0,
      0xF0, 0x80, 0x80, 0x80, 0xF0,
      0xE0, 0x90, 0x90, 0x90, 0xE0,
      0xF0, 0x80, 0xF0, 0x80, 0xF0,
      0xF0, 0x80, 0xF0, 0x80, 0x80]"

text \<open>
  The two loading loops: \<^verbatim>\<open>this.memory[base + loc] = bytes[loc]\<close> for \<open>loc\<close> from 0, with
  \<open>base\<close> 0 for the sprites and \<open>0x200\<close> for a program.
\<close>

fun loadBytes :: "u8 list \<Rightarrow> int \<Rightarrow> (nat \<Rightarrow> u8) \<Rightarrow> (nat \<Rightarrow> u8)" where
  "loadBytes [] a m = m"
| "loadBytes (b # bs) a m = loadBytes bs (a + 1) (mem_write m a b)"

definition loadSpritesIntoMemory :: "CPU \<Rightarrow> CPU" where
  "loadSpritesIntoMemory s = s\<lparr> memory := loadBytes sprites 0 (memory s) \<rparr>"

definition loadProgramIntoMemory :: "u8 list \<Rightarrow> CPU \<Rightarrow> CPU" where
  "loadProgramIntoMemory program s = s\<lparr> memory := loadBytes program 0x200 (memory s) \<rparr>"

section \<open>Timers and sound\<close>

definition updateTimers :: "CPU \<Rightarrow> CPU" where
  "updateTimers s =
     (let s1 = (if delayTimer s > 0 then s\<lparr> delayTimer := delayTimer s - 1 \<rparr> else s)
      in if soundTimer s1 > 0 then s1\<lparr> soundTimer := soundTimer s1 - 1 \<rparr> else s1)"

definition playSound :: "CPU \<Rightarrow> CPU" where
  "playSound s =
     (if soundTimer s > 0 then s\<lparr> speaker := play (speaker s) 440 \<rparr>
      else s\<lparr> speaker := stop (speaker s) \<rparr>)"

section \<open>Instruction execution\<close>

text \<open>
  The only \<^verbatim>\<open>throw\<close> of the interpreter: \<^verbatim>\<open>new Error('Unknown opcode' + opcode)\<close>, in the
  \<^verbatim>\<open>default\<close> arm of the outer \<^verbatim>\<open>switch\<close>. The error carries the opcode.
\<close>

datatype error = UnknownOpcode int

text \<open>\<^verbatim>\<open>x = (opcode & 0x0F00) >> 8\<close> and \<^verbatim>\<open>y = (opcode & 0x00F0) >> 4\<close>.\<close>

definition op_x :: "int \<Rightarrow> nat" where
  "op_x opcode = nat (drop_bit 8 (opcode AND 0x0F00))"

definition op_y :: "int \<Rightarrow> nat" where
  "op_y opcode = nat (drop_bit 4 (opcode AND 0x00F0))"

text \<open>
  \<^verbatim>\<open>case 0x0000\<close>: the inner \<^verbatim>\<open>switch (opcode)\<close> has the two cases \<open>0x00E0\<close> and \<open>0x00EE\<close>
  and no default. \<^verbatim>\<open>this.stack.pop()\<close> removes and returns the last element, and
  returns \<^verbatim>\<open>undefined\<close> on an empty array, which it leaves empty.
\<close>

definition exec_0000 :: "CPU \<Rightarrow> int \<Rightarrow> CPU" where
  "exec_0000 s opcode =
     (if opcode = 0x00E0 then s\<lparr> renderer := clear (renderer s) \<rparr>
      else if opcode = 0x00EE then
        s\<lparr> pc := (if stack s = [] then Undefined else last (stack s)),
           stack := butlast (stack s) \<rparr>
      else s)"

text \<open>
  \<^verbatim>\<open>case 0x8000\<close>, by the last nibble. The register file is a \<^verbatim>\<open>Uint8Array\<close>, so every
  store truncates to 8 bits, and each statement reads the registers as the statements
  before it left them. In \<^verbatim>\<open>8xy4\<close>, \<^verbatim>\<open>sum\<close> is the value of the assignment expression
  \<^verbatim>\<open>this.v[x] += this.v[y]\<close>: the sum as a number, before the store truncates it.
\<close>

definition exec_8000 :: "CPU \<Rightarrow> int \<Rightarrow> nat \<Rightarrow> nat \<Rightarrow> CPU" where
  "exec_8000 s opcode x y =
     (let n = opcode AND 0xF in
      if n = 0x0 then s\<lparr> v := (v s)(x := v s y) \<rparr>
      else if n = 0x1 then s\<lparr> v := (v s)(x := v s x OR v s y) \<rparr>
      else if n = 0x2 then s\<lparr> v := (v s)(x := v s x AND v s y) \<rparr>
      else if n = 0x3 then s\<lparr> v := (v s)(x := v s x XOR v s y) \<rparr>
      else if n = 0x4 then
        (let sum = uint (v s x) + uint (v s y);
             v1 = (v s)(x := word_of_int sum);
             v2 = v1(0xF := 0);
             v3 = (if sum > 0xFF then v2(0xF := 1) else v2)
         in s\<lparr> v := v3(x := word_of_int sum) \<rparr>)
      else if n = 0x5 then
        (let v1 = (v s)(0xF := 0);
             v2 = (if v1 x > v1 y then v1(0xF := 1) else v1)
         in s\<lparr> v := v2(x := v2 x - v2 y) \<rparr>)
      else if n = 0x6 then
        (let v1 = (v s)(0xF := v s x AND 0x1)
         in s\<lparr> v := v1(x := drop_bit 1 (v1 x)) \<rparr>)
      else if n = 0x7 then
        (let v1 = (v s)(0xF := 0);
             v2 = (if v1 y > v1 x then v1(0xF := 1) else v1)
         in s\<lparr> v := v2(x := v2 y - v2 x) \<rparr>)
      else if n = 0xE then
        (let v1 = (v s)(0xF := v s x AND 0x80)
         in s\<lparr> v := v1(x := push_bit 1 (v1 x)) \<rparr>)
      else s)"

text \<open>
  \<^verbatim>\<open>case 0xD000\<close>. One pass of the inner loop body: when the leftmost bit of \<^verbatim>\<open>sprite\<close> is
  set, \<^verbatim>\<open>setPixel(this.v[x] + col, this.v[y] + row)\<close> is called, and \<^verbatim>\<open>VF\<close> is set to 1
  when it returns true. The registers are read at each call.
\<close>

definition drawPixel :: "nat \<Rightarrow> nat \<Rightarrow> nat \<Rightarrow> nat \<Rightarrow> int \<Rightarrow> CPU \<Rightarrow> CPU" where
  "drawPixel x y row col sprite s =
     (if (sprite AND 0x80) > 0 then
        (case setPixel (renderer s) (uint (v s x) + int col) (uint (v s y) + int row) of
           (r, erased) \<Rightarrow>
             if erased then s\<lparr> renderer := r, v := (v s)(0xF := 1) \<rparr>
             else s\<lparr> renderer := r \<rparr>)
      else s)"

text \<open>
  The inner loop, \<^verbatim>\<open>for (let col = 0; col < width; col++)\<close> with \<^verbatim>\<open>width = 8\<close>, shifting
  \<^verbatim>\<open>sprite\<close> left after each column. \<^verbatim>\<open>sprite\<close> is a number, not a byte: the shift does
  not truncate it, and only its bit 7 is tested.
\<close>

function drawCols :: "nat \<Rightarrow> nat \<Rightarrow> nat \<Rightarrow> nat \<Rightarrow> int \<Rightarrow> CPU \<Rightarrow> CPU" where
  "drawCols x y row col sprite s =
     (if col < 8
      then drawCols x y row (col + 1) (push_bit 1 sprite) (drawPixel x y row col sprite s)
      else s)"
  by pat_completeness auto
termination
  by (relation "measure (\<lambda>(x, y, row, col, sprite, s). 8 - col)") auto

text \<open>
  The outer loop, \<^verbatim>\<open>for (let row = 0; row < height; row++)\<close>, reading
  \<^verbatim>\<open>this.memory[this.i + row]\<close>. A read past the end of memory gives \<^verbatim>\<open>undefined\<close>, which
  \<^verbatim>\<open>&\<close> and \<^verbatim>\<open><<=\<close> treat as 0.
\<close>

function drawRows :: "nat \<Rightarrow> nat \<Rightarrow> nat \<Rightarrow> nat \<Rightarrow> CPU \<Rightarrow> CPU" where
  "drawRows x y height row s =
     (if row < height
      then drawRows x y height (row + 1)
             (drawCols x y row 0 (byte_val (mem_read (memory s) (i s + int row))) s)
      else s)"
  by pat_completeness auto
termination
  by (relation "measure (\<lambda>(x, y, height, row, s). height - row)") auto

definition exec_D000 :: "CPU \<Rightarrow> int \<Rightarrow> nat \<Rightarrow> nat \<Rightarrow> CPU" where
  "exec_D000 s opcode x y =
     (let height = nat (opcode AND 0xF)
      in drawRows x y height 0 (s\<lparr> v := (v s)(0xF := 0) \<rparr>))"

definition exec_E000 :: "CPU \<Rightarrow> int \<Rightarrow> nat \<Rightarrow> CPU" where
  "exec_E000 s opcode x =
     (let kk = opcode AND 0xFF in
      if kk = 0x9E then
        (if isKeyPressed (keyboard s) (uint (v s x)) then s\<lparr> pc := js_add (pc s) 2 \<rparr> else s)
      else if kk = 0xA1 then
        (if \<not> isKeyPressed (keyboard s) (uint (v s x)) then s\<lparr> pc := js_add (pc s) 2 \<rparr> else s)
      else s)"

text \<open>
  The two block loops of \<^verbatim>\<open>Fx55\<close> and \<^verbatim>\<open>Fx65\<close>:
  \<^verbatim>\<open>for (let registerIndex = 0; registerIndex <= x; registerIndex++)\<close>.
\<close>

function storeRegs :: "nat \<Rightarrow> nat \<Rightarrow> CPU \<Rightarrow> CPU" where
  "storeRegs x registerIndex s =
     (if registerIndex \<le> x
      then storeRegs x (registerIndex + 1)
             (s\<lparr> memory := mem_write (memory s) (i s + int registerIndex) (v s registerIndex) \<rparr>)
      else s)"
  by pat_completeness auto
termination
  by (relation "measure (\<lambda>(x, registerIndex, s). Suc x - registerIndex)") auto

function loadRegs :: "nat \<Rightarrow> nat \<Rightarrow> CPU \<Rightarrow> CPU" where
  "loadRegs x registerIndex s =
     (if registerIndex \<le> x
      then loadRegs x (registerIndex + 1)
             (s\<lparr> v := (v s)(registerIndex :=
                    word_of_int (byte_val (mem_read (memory s) (i s + int registerIndex)))) \<rparr>)
      else s)"
  by pat_completeness auto
termination
  by (relation "measure (\<lambda>(x, registerIndex, s). Suc x - registerIndex)") auto

text \<open>
  The closure \<^verbatim>\<open>Fx0A\<close> registers as \<^verbatim>\<open>keyboard.onNextKeyPress\<close>, for the register index
  it captured.
\<close>

definition keyPressCallback :: "nat \<Rightarrow> int \<Rightarrow> CPU \<Rightarrow> CPU" where
  "keyPressCallback x key s = s\<lparr> v := (v s)(x := word_of_int key), paused := False \<rparr>"

text \<open>
  \<^verbatim>\<open>case 0xF000\<close>, by the low byte. In \<^verbatim>\<open>Fx33\<close> the three \<^verbatim>\<open>parseInt\<close> calls give the
  integer parts of \<open>Vx / 100\<close>, \<open>(Vx % 100) / 10\<close> and \<open>Vx % 10\<close>.
\<close>

definition exec_F000 :: "CPU \<Rightarrow> int \<Rightarrow> nat \<Rightarrow> CPU" where
  "exec_F000 s opcode x =
     (let kk = opcode AND 0xFF in
      if kk = 0x07 then s\<lparr> v := (v s)(x := word_of_int (delayTimer s)) \<rparr>
      else if kk = 0x0A then
        s\<lparr> paused := True, keyboard := (keyboard s)\<lparr> onNextKeyPress := Some x \<rparr> \<rparr>
      else if kk = 0x15 then s\<lparr> delayTimer := uint (v s x) \<rparr>
      else if kk = 0x18 then s\<lparr> soundTimer := uint (v s x) \<rparr>
      else if kk = 0x1E then s\<lparr> i := i s + uint (v s x) \<rparr>
      else if kk = 0x29 then s\<lparr> i := uint (v s x) * 5 \<rparr>
      else if kk = 0x33 then
        (let m1 = mem_write (memory s) (i s) (word_of_int (uint (v s x) div 100));
             m2 = mem_write m1 (i s + 1) (word_of_int ((uint (v s x) mod 100) div 10));
             m3 = mem_write m2 (i s + 2) (word_of_int (uint (v s x) mod 10))
         in s\<lparr> memory := m3 \<rparr>)
      else if kk = 0x55 then storeRegs x 0 s
      else if kk = 0x65 then loadRegs x 0 s
      else s)"

text \<open>
  \<^verbatim>\<open>executeInstruction(opcode)\<close>. \<open>rnd\<close> is the number \<^verbatim>\<open>Math.random()\<close> returns if this
  instruction calls it (only \<^verbatim>\<open>Cxkk\<close> does); it lies in \<open>[0, 1)\<close>. The product
  \<^verbatim>\<open>Math.random() * 0xFF\<close> is taken exactly; the rounding of the floating-point product
  is not modelled. The program counter is advanced first, then the outer \<^verbatim>\<open>switch\<close> on
  \<^verbatim>\<open>opcode & 0xF000\<close> runs, with its \<^verbatim>\<open>default\<close> arm last.
\<close>

definition executeInstruction :: "real \<Rightarrow> CPU \<Rightarrow> int \<Rightarrow> error + CPU" where
  "executeInstruction rnd s0 opcode =
     (let s = s0\<lparr> pc := js_add (pc s0) 2 \<rparr>;
          x = op_x opcode;
          y = op_y opcode;
          c = opcode AND 0xF000
      in if c = 0x0000 then Inr (exec_0000 s opcode)
         else if c = 0x1000 then Inr (s\<lparr> pc := Num (opcode AND 0xFFF) \<rparr>)
         else if c = 0x2000 then
           Inr (s\<lparr> stack := stack s @ [pc s], pc := Num (opcode AND 0xFFF) \<rparr>)
         else if c = 0x3000 then
           Inr (if uint (v s x) = (opcode AND 0xFF) then s\<lparr> pc := js_add (pc s) 2 \<rparr> else s)
         else if c = 0x4000 then
           Inr (if uint (v s x) \<noteq> (opcode AND 0xFF) then s\<lparr> pc := js_add (pc s) 2 \<rparr> else s)
         else if c = 0x5000 then
           Inr (if v s x = v s y then s\<lparr> pc := js_add (pc s) 2 \<rparr> else s)
         else if c = 0x6000 then Inr (s\<lparr> v := (v s)(x := word_of_int (opcode AND 0xFF)) \<rparr>)
         else if c = 0x7000 then
           Inr (s\<lparr> v := (v s)(x := v s x + word_of_int (opcode AND 0xFF)) \<rparr>)
         else if c = 0x8000 then Inr (exec_8000 s opcode x y)
         else if c = 0x9000 then
           Inr (if v s x \<noteq> v s y then s\<lparr> pc := js_add (pc s) 2 \<rparr> else s)
         else if c = 0xA000 then Inr (s\<lparr> i := opcode AND 0xFFF \<rparr>)
         else if c = 0xB000 then Inr (s\<lparr> pc := Num ((opcode AND 0xFFF) + uint (v s 0)) \<rparr>)
         else if c = 0xC000 then
           (let rand = \<lfloor>rnd * 0xFF\<rfloor>
            in Inr (s\<lparr> v := (v s)(x := word_of_int (rand AND (opcode AND 0xFF))) \<rparr>))
         else if c = 0xD000 then Inr (exec_D000 s opcode x y)
         else if c = 0xE000 then Inr (exec_E000 s opcode x)
         else if c = 0xF000 then Inr (exec_F000 s opcode x)
         else Inl (UnknownOpcode opcode))"

section \<open>The frame cycle\<close>

text \<open>
  \<^verbatim>\<open>this.memory[this.pc] << 8 | this.memory[this.pc + 1]\<close>. When the program counter is
  \<^verbatim>\<open>undefined\<close> or \<^verbatim>\<open>NaN\<close> both reads give \<^verbatim>\<open>undefined\<close>, and the opcode is 0.
\<close>

definition fetch :: "CPU \<Rightarrow> int" where
  "fetch s =
     (case pc s of
        Num a \<Rightarrow>
          push_bit 8 (byte_val (mem_read (memory s) a)) OR byte_val (mem_read (memory s) (a + 1))
      | _ \<Rightarrow> 0)"

text \<open>
  The loop of \<^verbatim>\<open>cycle()\<close>, \<^verbatim>\<open>for (let i = 0; i < this.speed; i++)\<close>, with the counter
  named \<open>k\<close>. The bound \<open>n\<close> is \<^verbatim>\<open>this.speed\<close>, which no instruction writes.
  \<open>rnd k\<close> is what \<^verbatim>\<open>Math.random()\<close> would return in pass \<open>k\<close>. An exception thrown by
  \<^verbatim>\<open>executeInstruction\<close> leaves the loop and \<^verbatim>\<open>cycle()\<close>.
\<close>

function cycleLoop :: "(nat \<Rightarrow> real) \<Rightarrow> nat \<Rightarrow> nat \<Rightarrow> CPU \<Rightarrow> error + CPU" where
  "cycleLoop rnd n k s =
     (if k < n then
        (if \<not> paused s then
           (case executeInstruction (rnd k) s (fetch s) of
              Inl e \<Rightarrow> Inl e
            | Inr s' \<Rightarrow> cycleLoop rnd n (k + 1) s')
         else cycleLoop rnd n (k + 1) s)
      else Inr s)"
  by pat_completeness auto
termination
  by (relation "measure (\<lambda>(rnd, n, k, s). n - k)") auto

definition cycle :: "(nat \<Rightarrow> real) \<Rightarrow> CPU \<Rightarrow> error + CPU" where
  "cycle rnd s =
     (case cycleLoop rnd (speed s) 0 s of
        Inl e \<Rightarrow> Inl e
      | Inr s1 \<Rightarrow>
          (let s2 = (if \<not> paused s1 then updateTimers s1 else s1);
               s3 = playSound s2
           in Inr (s3\<lparr> renderer := render (renderer s3) \<rparr>)))"

section \<open>A machine to run\<close>

text \<open>
  The machine \<^verbatim>\<open>chip8.js\<close> builds before a ROM is loaded: a renderer of scale 10, no key
  held, a silent speaker, and the font sprites in memory.
\<close>

definition noKeys :: Keyboard where
  "noKeys = \<lparr> keysPressed = (\<lambda>_. False), onNextKeyPress = None \<rparr>"

definition machine0 :: CPU where
  "machine0 =
     loadSpritesIntoMemory (newCPU (newRenderer 10) noKeys \<lparr> oscillator = None \<rparr>)"

text \<open>A source of random numbers that always returns 0, for runs that draw none.\<close>

definition noRandom :: "nat \<Rightarrow> real" where
  "noRandom k = 0"

section \<open>Notions for the statements about drawing\<close>

text \<open>
  What the statements about \<open>Dxyn\<close> speak of. \<open>pixelErased\<close>: this pass of the inner loop
  calls \<^verbatim>\<open>setPixel\<close> and the call returns true. \<open>anyErasedCols\<close> and \<open>anyErasedRows\<close>: some
  pass of the rest of the scan does, the scan running as \<open>drawCols\<close> and \<open>drawRows\<close> run
  it. \<open>pixelLoc\<close> is the cell index \<^verbatim>\<open>setPixel\<close> computes and \<open>toggle\<close> its write to that
  cell. \<open>locsCols\<close> and \<open>locsRows\<close> list the cells a scan toggles, in order, when the
  position registers hold \<open>vx\<close> and \<open>vy\<close> throughout.
\<close>

definition pixelErased :: "nat \<Rightarrow> nat \<Rightarrow> nat \<Rightarrow> nat \<Rightarrow> int \<Rightarrow> CPU \<Rightarrow> bool" where
  "pixelErased x y row col sprite s =
     ((sprite AND 0x80) > 0 \<and>
      snd (setPixel (renderer s) (uint (v s x) + int col) (uint (v s y) + int row)))"

function anyErasedCols :: "nat \<Rightarrow> nat \<Rightarrow> nat \<Rightarrow> nat \<Rightarrow> int \<Rightarrow> CPU \<Rightarrow> bool" where
  "anyErasedCols x y row col sprite s =
     (if col < 8
      then pixelErased x y row col sprite s \<or>
           anyErasedCols x y row (col + 1) (push_bit 1 sprite) (drawPixel x y row col sprite s)
      else False)"
  by pat_completeness auto
termination
  by (relation "measure (\<lambda>(x, y, row, col, sprite, s). 8 - col)") auto

function anyErasedRows :: "nat \<Rightarrow> nat \<Rightarrow> nat \<Rightarrow> nat \<Rightarrow> CPU \<Rightarrow> bool" where
  "anyErasedRows x y height row s =
     (if row < height
      then anyErasedCols x y row 0 (byte_val (mem_read (memory s) (i s + int row))) s \<or>
           anyErasedRows x y height (row + 1)
             (drawCols x y row 0 (byte_val (mem_read (memory s) (i s + int row))) s)
      else False)"
  by pat_completeness auto
termination
  by (relation "measure (\<lambda>(x, y, height, row, s). height - row)") auto

definition pixelLoc :: "int \<Rightarrow> int \<Rightarrow> int" where
  "pixelLoc x0 y0 =
     (let x = (if x0 > cols then x0 - cols else if x0 < 0 then x0 + cols else x0);
          y = (if y0 > rows then y0 - rows else if y0 < 0 then y0 + rows else y0)
      in x + (y * cols))"

definition toggle :: "int \<Rightarrow> (int \<Rightarrow> int option) \<Rightarrow> (int \<Rightarrow> int option)" where
  "toggle p d = d(p \<mapsto> cellval d p XOR 1)"

function locsCols :: "int \<Rightarrow> int \<Rightarrow> nat \<Rightarrow> nat \<Rightarrow> int \<Rightarrow> int list" where
  "locsCols vx vy row col sprite =
     (if col < 8
      then (if (sprite AND 0x80) > 0 then [pixelLoc (vx + int col) (vy + int row)] else []) @
           locsCols vx vy row (col + 1) (push_bit 1 sprite)
      else [])"
  by pat_completeness auto
termination
  by (relation "measure (\<lambda>(vx, vy, row, col, sprite). 8 - col)") auto

function locsRows :: "(nat \<Rightarrow> u8) \<Rightarrow> int \<Rightarrow> int \<Rightarrow> int \<Rightarrow> nat \<Rightarrow> nat \<Rightarrow> int list" where
  "locsRows m a vx vy height row =
     (if row < height
      then locsCols vx vy row 0 (byte_val (mem_read m (a + int row))) @
           locsRows m a vx vy height (row + 1)
      else [])"
  by pat_completeness auto
termination
  by (relation "measure (\<lambda>(m, a, vx, vy, height, row). height - row)") auto

section \<open>Decoding and byte arithmetic\<close>

text \<open>
  The loops are unfolded by hand, one pass at a time, where a proof needs it.
\<close>

declare drawCols.simps [simp del]
declare drawRows.simps [simp del]
declare storeRegs.simps [simp del]
declare loadRegs.simps [simp del]
declare cycleLoop.simps [simp del]
declare anyErasedCols.simps [simp del]
declare anyErasedRows.simps [simp del]
declare locsCols.simps [simp del]
declare locsRows.simps [simp del]

text \<open>
  An opcode is recognised by masking: a word of the form \<open>8xy4\<close> is one with
  \<open>opcode AND 0xF00F = 0x8004\<close>. A coarser mask of the same word follows from a finer one.
\<close>

lemma and_submask:
  fixes x :: int
  assumes "x AND m = c" and "m AND k = k"
  shows "x AND k = c AND k"
proof -
  have "x AND k = x AND (m AND k)" using assms(2) by simp
  also have "\<dots> = (x AND m) AND k" by (simp add: and.assoc)
  finally show ?thesis using assms(1) by simp
qed

lemma decode_F00F:
  fixes opcode :: int
  assumes "opcode AND 0xF00F = c"
  shows "opcode AND 0xF000 = c AND 0xF000" and "opcode AND 0xF = c AND 0xF"
  using and_submask [OF assms, of "0xF000"] and_submask [OF assms, of "0xF"] by simp_all

lemma decode_F0FF:
  fixes opcode :: int
  assumes "opcode AND 0xF0FF = c"
  shows "opcode AND 0xF000 = c AND 0xF000" and "opcode AND 0xFF = c AND 0xFF"
  using and_submask [OF assms, of "0xF000"] and_submask [OF assms, of "0xFF"] by simp_all

lemma exec_class_8:
  assumes "opcode AND 0xF000 = 0x8000"
  shows "executeInstruction rnd s opcode =
    Inr (exec_8000 (s\<lparr> pc := js_add (pc s) 2 \<rparr>) opcode (op_x opcode) (op_y opcode))"
  using assms by (simp add: executeInstruction_def)

lemma uint_add_u8: "uint (a + b :: u8) = (uint a + uint b) mod 256"
  by (simp add: uint_word_ariths)

lemma uint_sub_u8: "uint (a - b :: u8) = (uint a - uint b) mod 256"
  by (simp add: uint_word_ariths)

lemma and_exp_int:
  fixes k :: int
  shows "k AND 2 ^ n = (if bit k n then 2 ^ n else 0)"
  by (rule bit_eqI) (auto simp add: bit_and_iff bit_exp_iff)

lemma and_128_int:
  fixes k :: int
  assumes "0 \<le> k" and "k < 256"
  shows "k AND 0x80 = (if 128 \<le> k then 128 else 0)"
proof -
  have "bit k 7 \<longleftrightarrow> odd (k div 128)"
    by (simp add: bit_iff_odd)
  also have "\<dots> \<longleftrightarrow> 128 \<le> k"
    using assms by presburger
  finally show ?thesis using and_exp_int [of k 7] by simp
qed

lemma msb_mask: "uint ((w::u8) AND 0x80) = (if 128 \<le> uint w then 128 else 0)"
proof -
  have "uint w < 256" using uint_lt2p [of w] by simp
  then show ?thesis
    using and_128_int [of "uint w"] by (simp add: uint_and)
qed

lemma lsb_mask: "uint ((w::u8) AND 1) = uint w mod 2"
  by (metis and_one_eq uint_and unsigned_1)

lemma machine0_fields:
  "v machine0 = (\<lambda>_. 0)" "stack machine0 = []" "pc machine0 = Num 0x200"
  "paused machine0 = False" "speed machine0 = 10" "i machine0 = 0"
  "delayTimer machine0 = 0" "soundTimer machine0 = 0"
  "renderer machine0 = newRenderer 10" "speaker machine0 = \<lparr> oscillator = None \<rparr>"
  by (simp_all add: machine0_def loadSpritesIntoMemory_def newCPU_def)

section \<open>Unknown opcodes\<close>

text \<open>
  The outer \<^verbatim>\<open>switch\<close> is on \<^verbatim>\<open>opcode & 0xF000\<close>, which has 16 possible values, and it has
  a \<^verbatim>\<open>case\<close> for each of them. So its \<^verbatim>\<open>default\<close> arm, the only place that throws, is never
  taken: every instruction returns normally.
\<close>

lemma high_nibble_cases:
  fixes opcode :: int
  shows "opcode AND 0xF000 \<in> {0x0000, 0x1000, 0x2000, 0x3000, 0x4000, 0x5000, 0x6000, 0x7000,
           0x8000, 0x9000, 0xA000, 0xB000, 0xC000, 0xD000, 0xE000, 0xF000}"
proof -
  have s: "(0xF000 :: int) = 2 ^ 15 OR 2 ^ 14 OR 2 ^ 13 OR 2 ^ 12" by simp
  have "opcode AND 0xF000 =
      (opcode AND 2 ^ 15) OR (opcode AND 2 ^ 14) OR (opcode AND 2 ^ 13) OR (opcode AND 2 ^ 12)"
    unfolding s by (simp only: bit.conj_disj_distrib)
  also have "\<dots> =
      (if bit opcode 15 then 2 ^ 15 else 0) OR (if bit opcode 14 then 2 ^ 14 else 0) OR
      (if bit opcode 13 then 2 ^ 13 else 0) OR (if bit opcode 12 then 2 ^ 12 else 0)"
    by (simp only: and_exp_int)
  finally show ?thesis by (simp split: if_splits)
qed

lemma executeInstruction_returns: "\<exists>s'. executeInstruction rnd s opcode = Inr s'"
  using high_nibble_cases [of opcode] by (auto simp add: executeInstruction_def Let_def)

text \<open>
  Claim C1: every fetched instruction word that matches no recognised opcode makes the
  step fail with an unknown-opcode error; the program \<open>0xFF, 0xFF\<close> raises it with opcode
  \<open>0xFFFF\<close> at PC \<open>0x200\<close>.

  On the code this fails. Loaded at \<open>0x200\<close>, the two bytes are fetched as \<open>0xFFFF\<close>;
  the outer \<^verbatim>\<open>switch\<close> takes \<^verbatim>\<open>case 0xF000\<close>, whose inner \<^verbatim>\<open>switch\<close> has no case \<open>0xFF\<close> and
  no default, so nothing is thrown: the instruction returns normally and its only
  effect is the program counter at \<open>0x202\<close>. The same holds for every word: no opcode,
  in any state, makes the instruction raise.
\<close>

theorem unknown_opcode_FFFF_not_raised:
  "pc (loadProgramIntoMemory [0xFF, 0xFF] machine0) = Num 0x200 \<and>
   fetch (loadProgramIntoMemory [0xFF, 0xFF] machine0) = 0xFFFF \<and>
   executeInstruction rnd (loadProgramIntoMemory [0xFF, 0xFF] machine0) 0xFFFF =
     Inr ((loadProgramIntoMemory [0xFF, 0xFF] machine0)\<lparr> pc := Num 0x202 \<rparr>) \<and>
   (\<forall>r s opcode. \<exists>s'. executeInstruction r s opcode = Inr s')"
proof -
  let ?s = "loadProgramIntoMemory [0xFF, 0xFF] machine0"
  have p: "pc ?s = Num 0x200"
    by (simp add: loadProgramIntoMemory_def machine0_def loadSpritesIntoMemory_def newCPU_def)
  have f: "fetch ?s = 0xFFFF"
    by (simp add: fetch_def loadProgramIntoMemory_def machine0_def loadSpritesIntoMemory_def
        newCPU_def sprites_def mem_write_def mem_read_def byte_val_def)
  have e: "executeInstruction rnd ?s 0xFFFF = Inr (?s\<lparr> pc := Num 0x202 \<rparr>)"
    by (simp add: executeInstruction_def exec_F000_def p js_add_def)
  from p f e executeInstruction_returns show ?thesis by blast
qed

section \<open>The wrap of setPixel\<close>

text \<open>
  Claim C2: \<open>setPixel\<close> wraps \<open>x\<close> into \<open>[0, 63]\<close> and \<open>y\<close> into \<open>[0, 31]\<close> before indexing, so
  that \<open>x = 64\<close> is equivalent to \<open>x = 0\<close>, and likewise for \<open>y\<close> with the 32-row bound.

  On the code this fails at the bound itself: the tests are \<^verbatim>\<open>x > this.cols\<close> and
  \<^verbatim>\<open>y > this.rows\<close>, so 64 and 32 are left as they are. On a fresh display
  \<open>setPixel(64, 0)\<close> turns on cell 64, which is the pixel at column 0 of row 1, and not
  cell 0 as \<open>setPixel(0, 0)\<close> does; \<open>setPixel(0, 32)\<close> writes cell 2048, past the
  \<open>64 * 32\<close> cells that are rendered, and not cell 0.
\<close>

theorem setPixel_64_not_wrapped:
  "display (fst (setPixel (newRenderer 10) 64 0)) 64 = Some 1 \<and>
   display (fst (setPixel (newRenderer 10) 64 0)) 0 = None \<and>
   display (fst (setPixel (newRenderer 10) 0 0)) 0 = Some 1 \<and>
   display (fst (setPixel (newRenderer 10) 0 32)) 2048 = Some 1 \<and>
   display (fst (setPixel (newRenderer 10) 0 32)) 0 = None"
  by (simp add: setPixel_def newRenderer_def cols_def rows_def cellval_def)

section \<open>Arithmetic with flags\<close>

text \<open>
  Claim C5: for all register pairs \<open>Vx\<close>, \<open>Vy\<close> holding \<open>a\<close> and \<open>b\<close>, \<open>8xy4\<close> stores
  \<open>(a + b) mod 256\<close> in \<open>Vx\<close> and sets \<open>VF\<close> to 1 iff \<open>a + b > 255\<close>, else to 0.

  As stated this fails when \<open>Vx\<close> is \<open>VF\<close> itself: the last statement of the case,
  \<^verbatim>\<open>this.v[x] = sum\<close>, then overwrites the flag. With 1 in \<open>VF\<close> and 0 in \<open>V0\<close>, \<open>8F04\<close>
  leaves 1 in \<open>VF\<close> although the sum 1 does not exceed 255.
\<close>

theorem add_8F04_counterexample:
  "uint (v (machine0\<lparr> v := (v machine0)(0xF := 1) \<rparr>) 0xF) +
     uint (v (machine0\<lparr> v := (v machine0)(0xF := 1) \<rparr>) 0) = 1 \<and>
   \<not> isl (executeInstruction 0 (machine0\<lparr> v := (v machine0)(0xF := 1) \<rparr>) 0x8F04) \<and>
   v (projr (executeInstruction 0 (machine0\<lparr> v := (v machine0)(0xF := 1) \<rparr>) 0x8F04)) 0xF = 1"
  by (simp add: executeInstruction_def exec_8000_def op_x_def op_y_def machine0_def
      loadSpritesIntoMemory_def newCPU_def)

text \<open>
  Claim C5, amended: for every opcode \<open>8xy4\<close>, with \<open>a\<close> in \<open>Vx\<close> and \<open>b\<close> in \<open>Vy\<close> before,
  the instruction returns normally and \<open>Vx\<close> holds \<open>(a + b) mod 256\<close> after; when \<open>x\<close> is
  not \<open>0xF\<close>, \<open>VF\<close> is 1 if \<open>a + b > 255\<close> and 0 otherwise, the flag being taken from the
  sum before it is truncated. (When \<open>x\<close> is \<open>0xF\<close>, \<open>VF\<close> is \<open>Vx\<close> and holds the truncated
  sum.) \<open>y\<close> may be any register, \<open>0xF\<close> and \<open>x\<close> included.
\<close>

theorem add_8xy4:
  assumes "opcode AND 0xF00F = 0x8004"
    and "x = op_x opcode" and "y = op_y opcode"
    and "a = uint (v s x)" and "b = uint (v s y)"
  shows "\<exists>s'. executeInstruction rnd s opcode = Inr s' \<and>
           uint (v s' x) = (a + b) mod 256 \<and>
           (x \<noteq> 0xF \<longrightarrow> uint (v s' 0xF) = (if a + b > 255 then 1 else 0))"
proof -
  have d: "opcode AND 0xF000 = 0x8000" "opcode AND 0xF = 4"
    using decode_F00F [OF assms(1)] by simp_all
  show ?thesis
    unfolding exec_class_8 [OF d(1)] exec_8000_def Let_def assms(2-5) [symmetric] d(2)
    using assms(4,5) by (simp add: uint_add_u8)
qed

text \<open>Witness: \<open>8014\<close> with 200 in \<open>V0\<close> and 100 in \<open>V1\<close> leaves 44 in \<open>V0\<close> and 1 in \<open>VF\<close>.\<close>

theorem add_8xy4_witness:
  "(0x8014 :: int) AND 0xF00F = 0x8004 \<and> op_x 0x8014 = 0 \<and> op_y 0x8014 = 1 \<and>
   (\<exists>s'. executeInstruction 0 (machine0\<lparr> v := (v machine0)(0 := 200, 1 := 100) \<rparr>) 0x8014
            = Inr s' \<and>
      uint (v s' 0) = 44 \<and> uint (v s' 0xF) = 1)"
proof -
  let ?s = "machine0\<lparr> v := (v machine0)(0 := 200, 1 := 100) \<rparr>"
  have h: "(0x8014 :: int) AND 0xF00F = 0x8004" "0 = op_x 0x8014" "1 = op_y 0x8014"
    "200 = uint (v ?s 0)" "100 = uint (v ?s 1)"
    by (simp_all add: op_x_def op_y_def)
  from add_8xy4 [OF h, of 0] h(1-3) show ?thesis by simp
qed

text \<open>
  Claim C6: for all \<open>a\<close> in \<open>Vx\<close> and \<open>b\<close> in \<open>Vy\<close>, \<open>8xy5\<close> stores \<open>(a - b) mod 256\<close> in \<open>Vx\<close>
  and sets \<open>VF\<close> to 1 iff \<open>a > b\<close>, else to 0.

  As stated this fails when \<open>VF\<close> is one of the two operands, because the case begins
  with \<^verbatim>\<open>this.v[0xF] = 0\<close> and reads its operands afterwards. With 5 in \<open>VF\<close> and 3 in
  \<open>V0\<close>, \<open>8F05\<close> leaves 253 in \<open>VF\<close>, which is neither the difference 2 nor the flag 1.
  With 5 in \<open>V0\<close> and 3 in \<open>VF\<close>, \<open>80F5\<close> leaves 4 in \<open>V0\<close>, not 2.
\<close>

theorem sub_VF_operand_counterexample:
  "\<not> isl (executeInstruction 0 (machine0\<lparr> v := (v machine0)(0xF := 5, 0 := 3) \<rparr>) 0x8F05) \<and>
   v (projr (executeInstruction 0 (machine0\<lparr> v := (v machine0)(0xF := 5, 0 := 3) \<rparr>) 0x8F05))
     0xF = 253 \<and>
   \<not> isl (executeInstruction 0 (machine0\<lparr> v := (v machine0)(0 := 5, 0xF := 3) \<rparr>) 0x80F5) \<and>
   v (projr (executeInstruction 0 (machine0\<lparr> v := (v machine0)(0 := 5, 0xF := 3) \<rparr>) 0x80F5))
     0 = 4"
  by (simp add: executeInstruction_def exec_8000_def op_x_def op_y_def machine0_def
      loadSpritesIntoMemory_def newCPU_def)

text \<open>
  Claim C6, amended: for every opcode \<open>8xy5\<close> in which neither \<open>x\<close> nor \<open>y\<close> is \<open>0xF\<close>,
  with \<open>a\<close> in \<open>Vx\<close> and \<open>b\<close> in \<open>Vy\<close> before, the instruction returns normally, \<open>Vx\<close>
  holds \<open>(a - b) mod 256\<close> after, and \<open>VF\<close> is 1 if \<open>a > b\<close> and 0 otherwise.
\<close>

theorem sub_8xy5:
  assumes "opcode AND 0xF00F = 0x8005"
    and "x = op_x opcode" and "y = op_y opcode"
    and "a = uint (v s x)" and "b = uint (v s y)"
    and "x \<noteq> 0xF" and "y \<noteq> 0xF"
  shows "\<exists>s'. executeInstruction rnd s opcode = Inr s' \<and>
           uint (v s' x) = (a - b) mod 256 \<and>
           uint (v s' 0xF) = (if a > b then 1 else 0)"
proof -
  have d: "opcode AND 0xF000 = 0x8000" "opcode AND 0xF = 5"
    using decode_F00F [OF assms(1)] by simp_all
  show ?thesis
    unfolding exec_class_8 [OF d(1)] exec_8000_def Let_def assms(2,3) [symmetric] d(2)
    using assms(4-7) by (simp add: uint_sub_u8 word_less_def)
qed

text \<open>
  Witness: \<open>8015\<close> with 3 in \<open>V0\<close> and 5 in \<open>V1\<close> wraps to 254 in \<open>V0\<close> and leaves 0 in
  \<open>VF\<close>.
\<close>

theorem sub_8xy5_witness:
  "(0x8015 :: int) AND 0xF00F = 0x8005 \<and> op_x 0x8015 = 0 \<and> op_y 0x8015 = 1 \<and>
   (\<exists>s'. executeInstruction 0 (machine0\<lparr> v := (v machine0)(0 := 3, 1 := 5) \<rparr>) 0x8015
            = Inr s' \<and>
      uint (v s' 0) = 254 \<and> uint (v s' 0xF) = 0)"
proof -
  let ?s = "machine0\<lparr> v := (v machine0)(0 := 3, 1 := 5) \<rparr>"
  have h: "(0x8015 :: int) AND 0xF00F = 0x8005" "0 = op_x 0x8015" "1 = op_y 0x8015"
    "3 = uint (v ?s 0)" "5 = uint (v ?s 1)" "(0::nat) \<noteq> 0xF" "(1::nat) \<noteq> 0xF"
    by (simp_all add: op_x_def op_y_def)
  from sub_8xy5 [OF h, of 0] h(1-3) show ?thesis by simp
qed

text \<open>
  Claim C7: for every \<open>a\<close> in \<open>Vx\<close>, \<open>8xy6\<close> stores the least-significant bit of \<open>a\<close> in
  \<open>VF\<close> and \<open>a >> 1\<close> in \<open>Vx\<close>; \<open>8xyE\<close> stores \<open>a & 0x80\<close> (0 or 128) in \<open>VF\<close> and
  \<open>(a << 1) mod 256\<close> in \<open>Vx\<close>.

  As stated this fails when \<open>Vx\<close> is \<open>VF\<close>: the flag is written first and the shift then
  applies to the flag. With 3 in \<open>VF\<close>, \<open>8F06\<close> leaves 0 in \<open>VF\<close>, where the bit and the
  shifted value are both 1. With \<open>0xC0\<close> in \<open>VF\<close>, \<open>8F0E\<close> leaves 0 in \<open>VF\<close>, where the
  masked byte and the shifted value are both \<open>0x80\<close>.
\<close>

theorem shift_VF_counterexample:
  "\<not> isl (executeInstruction 0 (machine0\<lparr> v := (v machine0)(0xF := 3) \<rparr>) 0x8F06) \<and>
   v (projr (executeInstruction 0 (machine0\<lparr> v := (v machine0)(0xF := 3) \<rparr>) 0x8F06)) 0xF = 0 \<and>
   \<not> isl (executeInstruction 0 (machine0\<lparr> v := (v machine0)(0xF := 0xC0) \<rparr>) 0x8F0E) \<and>
   v (projr (executeInstruction 0 (machine0\<lparr> v := (v machine0)(0xF := 0xC0) \<rparr>) 0x8F0E)) 0xF = 0"
  by (simp add: executeInstruction_def exec_8000_def op_x_def op_y_def machine0_def
      loadSpritesIntoMemory_def newCPU_def)

text \<open>
  Claim C7, amended: for every register index \<open>x\<close> other than \<open>0xF\<close> and every \<open>a\<close> in
  \<open>Vx\<close>: \<open>8xy6\<close> returns normally with \<open>a mod 2\<close> in \<open>VF\<close> and \<open>a div 2\<close> in \<open>Vx\<close>; \<open>8xyE\<close>
  returns normally with 128 in \<open>VF\<close> if bit 7 of \<open>a\<close> is set and 0 otherwise (the masked
  byte, not 0/1), and \<open>(2 * a) mod 256\<close> in \<open>Vx\<close>.
\<close>

theorem shift_8xy6_8xyE:
  assumes "x = op_x opcode" and "a = uint (v s x)" and "x \<noteq> 0xF"
  shows "(opcode AND 0xF00F = 0x8006 \<longrightarrow>
           (\<exists>s'. executeInstruction rnd s opcode = Inr s' \<and>
              uint (v s' 0xF) = a mod 2 \<and> uint (v s' x) = a div 2)) \<and>
         (opcode AND 0xF00F = 0x800E \<longrightarrow>
           (\<exists>s'. executeInstruction rnd s opcode = Inr s' \<and>
              uint (v s' 0xF) = (if a \<ge> 128 then 128 else 0) \<and>
              uint (v s' x) = (2 * a) mod 256))"
proof (intro conjI impI)
  assume h: "opcode AND 0xF00F = 0x8006"
  have d: "opcode AND 0xF000 = 0x8000" "opcode AND 0xF = 6"
    using decode_F00F [OF h] by simp_all
  show "\<exists>s'. executeInstruction rnd s opcode = Inr s' \<and>
              uint (v s' 0xF) = a mod 2 \<and> uint (v s' x) = a div 2"
    unfolding exec_class_8 [OF d(1)] exec_8000_def Let_def assms(1) [symmetric] d(2)
    using assms(2,3) by (simp add: lsb_mask drop_bit_eq_div uint_div)
next
  assume h: "opcode AND 0xF00F = 0x800E"
  have d: "opcode AND 0xF000 = 0x8000" "opcode AND 0xF = 0xE"
    using decode_F00F [OF h] by simp_all
  show "\<exists>s'. executeInstruction rnd s opcode = Inr s' \<and>
              uint (v s' 0xF) = (if a \<ge> 128 then 128 else 0) \<and>
              uint (v s' x) = (2 * a) mod 256"
    unfolding exec_class_8 [OF d(1)] exec_8000_def Let_def assms(1) [symmetric] d(2)
    using assms(2,3) by (simp add: msb_mask uint_word_ariths mult.commute)
qed

text \<open>
  Witness: \<open>8006\<close> with 3 in \<open>V0\<close> leaves 1 in \<open>VF\<close> and 1 in \<open>V0\<close>; \<open>800E\<close> with \<open>0x81\<close> in
  \<open>V0\<close> leaves 128 in \<open>VF\<close> and 2 in \<open>V0\<close>.
\<close>

theorem shift_8xy6_8xyE_witness:
  "(0x8006 :: int) AND 0xF00F = 0x8006 \<and> (0x800E :: int) AND 0xF00F = 0x800E \<and>
   op_x 0x8006 = 0 \<and> op_x 0x800E = 0 \<and>
   (\<exists>s'. executeInstruction 0 (machine0\<lparr> v := (v machine0)(0 := 3) \<rparr>) 0x8006 = Inr s' \<and>
      uint (v s' 0xF) = 1 \<and> uint (v s' 0) = 1) \<and>
   (\<exists>s'. executeInstruction 0 (machine0\<lparr> v := (v machine0)(0 := 0x81) \<rparr>) 0x800E = Inr s' \<and>
      uint (v s' 0xF) = 128 \<and> uint (v s' 0) = 2)"
proof -
  let ?s = "machine0\<lparr> v := (v machine0)(0 := 3) \<rparr>"
  let ?t = "machine0\<lparr> v := (v machine0)(0 := 0x81) \<rparr>"
  have m: "(0x8006 :: int) AND 0xF00F = 0x8006" "(0x800E :: int) AND 0xF00F = 0x800E"
    by simp_all
  have x: "0 = op_x 0x8006" "0 = op_x 0x800E" "(0::nat) \<noteq> 0xF"
    by (simp_all add: op_x_def)
  have a: "3 = uint (v ?s 0)" "0x81 = uint (v ?t 0)"
    by simp_all
  from shift_8xy6_8xyE [OF x(1) a(1) x(3), of 0] shift_8xy6_8xyE [OF x(2) a(2) x(3), of 0] m x
  show ?thesis by simp
qed

section \<open>Clear screen, call and return\<close>

text \<open>
  Claim C3: \<open>00E0\<close> clears every pixel; \<open>00EE\<close> with a non-empty call stack restores PC
  to the value pushed by the matching \<open>2nnn\<close>; \<open>00EE\<close> with an empty call stack raises a
  fatal stack-underflow error rather than producing an undefined program counter.

  The last part fails: the interpreter has no such error. On the fresh machine, whose
  stack is empty, \<open>00EE\<close> returns normally, and \<^verbatim>\<open>this.pc = this.stack.pop()\<close> has made
  the program counter \<^verbatim>\<open>undefined\<close>.
\<close>

theorem ret_empty_stack_counterexample:
  "stack machine0 = [] \<and>
   \<not> isl (executeInstruction 0 machine0 0x00EE) \<and>
   pc (projr (executeInstruction 0 machine0 0x00EE)) = Undefined"
  by (simp add: executeInstruction_def exec_0000_def machine0_fields)

text \<open>
  Claim C3, amended: \<open>00E0\<close> returns normally and leaves every cell of the display empty,
  so no pixel is lit. A call \<open>2nnn\<close> returns normally, jumps to \<open>nnn\<close> and pushes the
  address of the instruction after the call. \<open>00EE\<close> on a stack whose last element is \<open>a\<close>
  returns normally, sets PC to \<open>a\<close> and pops it, so a return that finds the stack as the
  matching call left it resumes after that call. \<open>00EE\<close> on an empty stack raises no
  error: it returns normally with PC \<^verbatim>\<open>undefined\<close> and the stack still empty.
\<close>

theorem cls_call_ret:
  "(\<exists>s'. executeInstruction rnd s 0x00E0 = Inr s' \<and>
          (\<forall>p. display (renderer s') p = None \<and> \<not> lit (renderer s') p)) \<and>
   (opcode AND 0xF000 = 0x2000 \<longrightarrow>
      (\<exists>s'. executeInstruction rnd s opcode = Inr s' \<and>
         pc s' = Num (opcode AND 0xFFF) \<and> stack s' = stack s @ [js_add (pc s) 2])) \<and>
   (stack s = st @ [a] \<longrightarrow>
      (\<exists>s'. executeInstruction rnd s 0x00EE = Inr s' \<and> pc s' = a \<and> stack s' = st)) \<and>
   (stack s = [] \<longrightarrow>
      (\<exists>s'. executeInstruction rnd s 0x00EE = Inr s' \<and> pc s' = Undefined \<and> stack s' = []))"
  by (simp add: executeInstruction_def exec_0000_def clear_def lit_def cellval_def)

text \<open>
  Witness: on the fresh machine \<open>2ABC\<close> jumps to \<open>0xABC\<close> and pushes \<open>0x202\<close>; a return
  from there comes back to \<open>0x202\<close> with the stack empty again; and a return on the fresh
  machine itself, whose stack is empty, gives an undefined PC.
\<close>

theorem cls_call_ret_witness:
  "(0x2ABC :: int) AND 0xF000 = 0x2000 \<and> stack machine0 = [] \<and>
   (\<exists>s1. executeInstruction 0 machine0 0x2ABC = Inr s1 \<and>
      pc s1 = Num 0xABC \<and> stack s1 = [] @ [Num 0x202] \<and>
      (\<exists>s2. executeInstruction 0 s1 0x00EE = Inr s2 \<and> pc s2 = Num 0x202 \<and> stack s2 = [])) \<and>
   (\<exists>s'. executeInstruction 0 machine0 0x00EE = Inr s' \<and> pc s' = Undefined \<and> stack s' = [])"
proof -
  have m: "(0x2ABC :: int) AND 0xF000 = 0x2000" by simp
  have e: "stack machine0 = []" by (simp add: machine0_fields)
  from cls_call_ret [of 0 machine0 "0x2ABC" "[]" Undefined] m
  obtain s1 where s1: "executeInstruction 0 machine0 0x2ABC = Inr s1"
    "pc s1 = Num 0xABC" "stack s1 = [] @ [Num 0x202]"
    by (auto simp add: machine0_fields js_add_def)
  from cls_call_ret [of 0 s1 0 "[]" "Num 0x202"] s1(3)
  obtain s2 where s2: "executeInstruction 0 s1 0x00EE = Inr s2" "pc s2 = Num 0x202" "stack s2 = []"
    by auto
  from cls_call_ret [of 0 machine0 0 "[]" Undefined] e
  obtain s3 where s3: "executeInstruction 0 machine0 0x00EE = Inr s3" "pc s3 = Undefined"
    "stack s3 = []"
    by auto
  from m e s1 s2 s3 show ?thesis by blast
qed

section \<open>The frame cycle while paused\<close>

lemma cycleLoop_paused: "paused s \<Longrightarrow> cycleLoop rnd n k s = Inr s"
proof (induction rnd n k s rule: cycleLoop.induct)
  case (1 rnd n k s)
  then show ?case by (subst cycleLoop.simps) simp
qed

text \<open>
  Claim C4: in every frame cycle executed while paused, no instruction is executed, yet
  each nonzero delay and sound timer is still decremented by 1 and the tone and render
  steps still occur.

  The part about the timers fails: \<^verbatim>\<open>cycle()\<close> calls \<^verbatim>\<open>updateTimers()\<close> only under
  \<^verbatim>\<open>if (!this.paused)\<close>. A paused machine with delay timer 5 and sound timer 3 has the
  same two values after a cycle.
\<close>

theorem cycle_paused_counterexample:
  "paused (machine0\<lparr> delayTimer := 5, soundTimer := 3, paused := True \<rparr>) \<and>
   \<not> isl (cycle noRandom (machine0\<lparr> delayTimer := 5, soundTimer := 3, paused := True \<rparr>)) \<and>
   delayTimer
     (projr (cycle noRandom (machine0\<lparr> delayTimer := 5, soundTimer := 3, paused := True \<rparr>)))
     = 5 \<and>
   soundTimer
     (projr (cycle noRandom (machine0\<lparr> delayTimer := 5, soundTimer := 3, paused := True \<rparr>)))
     = 3"
  by (simp add: cycle_def cycleLoop_paused playSound_def)

text \<open>
  Claim C4, amended: a frame cycle of a paused machine returns normally; it executes no
  instruction and does not decrement the timers, so the state is the one before except
  for the two steps that still run: the speaker is started if the sound timer is
  nonzero and stopped otherwise, and the renderer has painted the display.
\<close>

theorem cycle_paused:
  assumes "paused s"
  shows "\<exists>s'. cycle rnd s = Inr s' \<and>
           s' = s\<lparr> speaker :=
                     (if soundTimer s > 0 then play (speaker s) 440 else stop (speaker s)),
                   renderer := render (renderer s) \<rparr> \<and>
           delayTimer s' = delayTimer s \<and> soundTimer s' = soundTimer s \<and>
           pc s' = pc s \<and> memory s' = memory s \<and> v s' = v s \<and> i s' = i s \<and>
           stack s' = stack s \<and> paused s'"
  using assms by (simp add: cycle_def cycleLoop_paused playSound_def)

text \<open>
  Witness: the paused machine with delay timer 5 and sound timer 3 keeps both and has
  the tone playing at 440 after a cycle.
\<close>

theorem cycle_paused_witness:
  "paused (machine0\<lparr> delayTimer := 5, soundTimer := 3, paused := True \<rparr>) \<and>
   (\<exists>s'. cycle noRandom (machine0\<lparr> delayTimer := 5, soundTimer := 3, paused := True \<rparr>) = Inr s' \<and>
      delayTimer s' = 5 \<and> soundTimer s' = 3 \<and> pc s' = Num 0x200 \<and>
      oscillator (speaker s') = Some 440 \<and> canvas (renderer s') = [])"
proof -
  let ?s = "machine0\<lparr> delayTimer := 5, soundTimer := 3, paused := True \<rparr>"
  have p: "paused ?s" by simp
  have c: "canvas (render (newRenderer 10)) = []"
    by (simp add: render_def newRenderer_def cellval_def)
  from cycle_paused [OF p, of noRandom] p c show ?thesis
    by (auto simp add: machine0_fields play_def)
qed

section \<open>The random byte\<close>

lemma floor_255:
  fixes u :: real
  assumes "0 \<le> u" and "u < 1"
  shows "0 \<le> \<lfloor>u * 0xFF\<rfloor> \<and> \<lfloor>u * 0xFF\<rfloor> \<le> 254"
proof -
  have "u * 255 < 255" using assms by simp
  then have "\<lfloor>u * 255\<rfloor> < 255" by (simp add: floor_less_iff)
  moreover have "0 \<le> \<lfloor>u * 255\<rfloor>" using assms by simp
  ultimately show ?thesis by simp
qed

text \<open>
  Claim C9: \<open>Cxkk\<close> stores \<open>r AND kk\<close> in \<open>Vx\<close>, where \<open>r\<close> is a random byte ranging over
  the full interval \<open>[0, 255]\<close>, so that 255 is a possible draw.

  On the code 255 is never drawn: \<open>r\<close> is \<^verbatim>\<open>Math.floor(Math.random() * 0xFF)\<close>, and
  \<^verbatim>\<open>Math.random()\<close> is less than 1, so \<open>r\<close> is at most 254 (the comment above the line says
  \<open>0-255\<close>). Whatever number in \<open>[0, 1)\<close> the generator returns, \<open>Cxkk\<close> returns normally
  with \<open>r AND kk\<close> in \<open>Vx\<close>, \<open>r\<close> at most 254, and so \<open>Vx\<close> at most 254, also for the mask
  \<open>kk = 0xFF\<close>. (That the draw is uniform is not a statement about one run and is not
  modelled. The floating-point product cannot reach 255 either: the largest double
  below 1 times 255 rounds to a double below 255.)
\<close>

theorem rnd_never_255:
  assumes "opcode AND 0xF000 = 0xC000" and "0 \<le> rnd" and "rnd < 1"
  shows "\<exists>s'. executeInstruction rnd s opcode = Inr s' \<and>
           v s' (op_x opcode) = word_of_int (\<lfloor>rnd * 0xFF\<rfloor> AND (opcode AND 0xFF)) \<and>
           \<lfloor>rnd * 0xFF\<rfloor> \<le> 254 \<and>
           uint (v s' (op_x opcode)) \<le> 254"
proof -
  let ?r = "\<lfloor>rnd * 0xFF\<rfloor>"
  let ?m = "?r AND (opcode AND 0xFF)"
  have r: "0 \<le> ?r" "?r \<le> 254" using floor_255 [OF assms(2,3)] by simp_all
  have m: "0 \<le> ?m" "?m \<le> 254"
    using r AND_upper1 [of ?r "opcode AND 0xFF"] by simp_all
  have "uint (word_of_int ?m :: u8) = ?m mod 256"
    by (simp add: uint_word_of_int take_bit_eq_mod)
  with m have u: "uint (word_of_int ?m :: u8) \<le> 254" by simp
  show ?thesis
    using assms(1) r(2) u by (simp add: executeInstruction_def)
qed

text \<open>Witness: with \<^verbatim>\<open>Math.random()\<close> returning one half, \<open>C0FF\<close> leaves 127 in \<open>V0\<close>.\<close>

theorem rnd_never_255_witness:
  "(0xC0FF :: int) AND 0xF000 = 0xC000 \<and> (0::real) \<le> 1/2 \<and> (1/2 :: real) < 1 \<and>
   op_x 0xC0FF = 0 \<and>
   (\<exists>s'. executeInstruction (1/2) machine0 0xC0FF = Inr s' \<and>
      v s' 0 = 127 \<and> uint (v s' 0) \<le> 254)"
proof -
  have h: "(0xC0FF :: int) AND 0xF000 = 0xC000" "(0::real) \<le> 1/2" "(1/2 :: real) < 1"
    by simp_all
  have x: "op_x 0xC0FF = 0" by (simp add: op_x_def)
  have f: "\<lfloor>(1/2 :: real) * 0xFF\<rfloor> = 127" by (simp add: floor_eq_iff)
  from rnd_never_255 [OF h, of machine0] h x f show ?thesis by simp
qed

section \<open>Block register store and load\<close>

lemma storeRegs_frame:
  "i (storeRegs x r s) = i s \<and> pc (storeRegs x r s) = pc s \<and>
   stack (storeRegs x r s) = stack s \<and> delayTimer (storeRegs x r s) = delayTimer s \<and>
   soundTimer (storeRegs x r s) = soundTimer s \<and> paused (storeRegs x r s) = paused s"
proof (induction x r s rule: storeRegs.induct)
  case (1 x r s)
  show ?case
  proof (cases "r \<le> x")
    case True
    with "1.IH" show ?thesis by (subst (1 2 3 4 5 6) storeRegs.simps) simp
  next
    case False
    then show ?thesis by (subst (1 2 3 4 5 6) storeRegs.simps) simp
  qed
qed

lemma loadRegs_frame:
  "i (loadRegs x r s) = i s \<and> pc (loadRegs x r s) = pc s \<and>
   stack (loadRegs x r s) = stack s \<and> delayTimer (loadRegs x r s) = delayTimer s \<and>
   soundTimer (loadRegs x r s) = soundTimer s \<and> paused (loadRegs x r s) = paused s"
proof (induction x r s rule: loadRegs.induct)
  case (1 x r s)
  show ?case
  proof (cases "r \<le> x")
    case True
    with "1.IH" show ?thesis by (subst (1 2 3 4 5 6) loadRegs.simps) simp
  next
    case False
    then show ?thesis by (subst (1 2 3 4 5 6) loadRegs.simps) simp
  qed
qed

text \<open>
  Claim C10: for every machine state and every register index \<open>x\<close>, executing \<open>Fx55\<close> or
  \<open>Fx65\<close> leaves the address register \<open>I\<close> unchanged, as well as PC (beyond the advance
  by 2), the stack, the timers and the paused flag. The instruction returns normally.
\<close>

theorem block_regs_frame:
  assumes "opcode AND 0xF0FF = 0xF055 \<or> opcode AND 0xF0FF = 0xF065"
  shows "\<exists>s'. executeInstruction rnd s opcode = Inr s' \<and>
           i s' = i s \<and> pc s' = js_add (pc s) 2 \<and> stack s' = stack s \<and>
           delayTimer s' = delayTimer s \<and> soundTimer s' = soundTimer s \<and>
           paused s' = paused s"
  using assms
proof
  assume h: "opcode AND 0xF0FF = 0xF055"
  have d: "opcode AND 0xF000 = 0xF000" "opcode AND 0xFF = 0x55"
    using decode_F0FF [OF h] by simp_all
  show ?thesis
    using d storeRegs_frame [of "op_x opcode" 0 "s\<lparr> pc := js_add (pc s) 2 \<rparr>"]
    by (simp add: executeInstruction_def exec_F000_def)
next
  assume h: "opcode AND 0xF0FF = 0xF065"
  have d: "opcode AND 0xF000 = 0xF000" "opcode AND 0xFF = 0x65"
    using decode_F0FF [OF h] by simp_all
  show ?thesis
    using d loadRegs_frame [of "op_x opcode" 0 "s\<lparr> pc := js_add (pc s) 2 \<rparr>"]
    by (simp add: executeInstruction_def exec_F000_def)
qed

text \<open>
  Witness: \<open>F355\<close> and \<open>F365\<close> on the fresh machine with \<open>I = 0x300\<close> and delay timer 7: \<open>I\<close>
  is still \<open>0x300\<close>, PC is \<open>0x202\<close>, the stack is empty, the timers are 7 and 0, and the
  machine is not paused.
\<close>

theorem block_regs_frame_witness:
  "(0xF355 :: int) AND 0xF0FF = 0xF055 \<and> (0xF365 :: int) AND 0xF0FF = 0xF065 \<and>
   (\<exists>s'. executeInstruction 0 (machine0\<lparr> i := 0x300, delayTimer := 7 \<rparr>) 0xF355 = Inr s' \<and>
      i s' = 0x300 \<and> pc s' = Num 0x202 \<and> stack s' = [] \<and>
      delayTimer s' = 7 \<and> soundTimer s' = 0 \<and> \<not> paused s') \<and>
   (\<exists>s'. executeInstruction 0 (machine0\<lparr> i := 0x300, delayTimer := 7 \<rparr>) 0xF365 = Inr s' \<and>
      i s' = 0x300 \<and> pc s' = Num 0x202 \<and> stack s' = [] \<and>
      delayTimer s' = 7 \<and> soundTimer s' = 0 \<and> \<not> paused s')"
proof -
  let ?s = "machine0\<lparr> i := 0x300, delayTimer := 7 \<rparr>"
  have a: "(0xF355 :: int) AND 0xF0FF = 0xF055" and b: "(0xF365 :: int) AND 0xF0FF = 0xF065"
    by simp_all
  from block_regs_frame [OF disjI1 [OF a], of 0 ?s] block_regs_frame [OF disjI2 [OF b], of 0 ?s] a b
  show ?thesis by (simp add: machine0_fields js_add_def)
qed

section \<open>Sprite drawing\<close>

text \<open>
  \<^verbatim>\<open>setPixel\<close> is a toggle of one cell. Toggling flips the number in the cell between even
  and odd, so a list of toggles changes a cell exactly when the cell occurs in it an odd
  number of times, and the same list applied twice changes nothing.
\<close>

lemma setPixel_toggle:
  "setPixel r x0 y0 =
     (r\<lparr> display := toggle (pixelLoc x0 y0) (display r) \<rparr>,
      cellval (toggle (pixelLoc x0 y0) (display r)) (pixelLoc x0 y0) = 0)"
  by (simp add: setPixel_def toggle_def pixelLoc_def Let_def cellval_def)

lemma cellval_toggle:
  "cellval (toggle q d) p = (if p = q then cellval d p XOR 1 else cellval d p)"
  by (simp add: toggle_def cellval_def)

lemma xor_1_twice: "((c::int) XOR 1) XOR 1 = c"
  by (simp add: xor.assoc)

lemma cellval_fold_toggle:
  "cellval (fold toggle ps d) p =
     (if odd (count_list ps p) then cellval d p XOR 1 else cellval d p)"
proof (induction ps arbitrary: d)
  case Nil
  show ?case by simp
next
  case (Cons q ps)
  show ?case by (simp add: Cons.IH cellval_toggle xor_1_twice)
qed

lemma cellval_fold_toggle_twice:
  "cellval (fold toggle ps (fold toggle ps d)) p = cellval d p"
  by (simp add: cellval_fold_toggle xor_1_twice)

subsection \<open>VF\<close>

text \<open>
  Each pass of the scan leaves \<open>VF\<close> alone or sets it to 1, and sets it exactly when its
  \<^verbatim>\<open>setPixel\<close> call returns true.
\<close>

lemma drawPixel_VF:
  "v (drawPixel x y row col sprite s) 0xF =
     (if pixelErased x y row col sprite s then 1 else v s 0xF)"
  by (simp add: drawPixel_def pixelErased_def split: prod.split)

lemma drawCols_VF:
  "v (drawCols x y row col sprite s) 0xF =
     (if anyErasedCols x y row col sprite s then 1 else v s 0xF)"
proof (induction x y row col sprite s rule: drawCols.induct)
  case (1 x y row col sprite s)
  show ?case
  proof (cases "col < 8")
    case True
    with "1.IH" show ?thesis
      by (subst drawCols.simps, subst anyErasedCols.simps) (simp add: drawPixel_VF)
  next
    case False
    then show ?thesis
      by (subst drawCols.simps, subst anyErasedCols.simps) simp
  qed
qed

lemma drawRows_VF:
  "v (drawRows x y height row s) 0xF =
     (if anyErasedRows x y height row s then 1 else v s 0xF)"
proof (induction x y height row s rule: drawRows.induct)
  case (1 x y height row s)
  show ?case
  proof (cases "row < height")
    case True
    with "1.IH" show ?thesis
      by (subst drawRows.simps, subst anyErasedRows.simps) (simp add: drawCols_VF)
  next
    case False
    then show ?thesis
      by (subst drawRows.simps, subst anyErasedRows.simps) simp
  qed
qed

subsection \<open>Erasing is reported\<close>

text \<open>
  Once \<open>VF\<close> is 1 it stays 1 through the scan; and as long as it is not 1, no call has
  returned true, so every pixel that was lit is still lit.
\<close>

lemma drawPixel_reports:
  "(v s 0xF = 1 \<longrightarrow> v (drawPixel x y row col sprite s) 0xF = 1) \<and>
   (v (drawPixel x y row col sprite s) 0xF \<noteq> 1 \<longrightarrow>
      (\<forall>p. lit (renderer s) p \<longrightarrow> lit (renderer (drawPixel x y row col sprite s)) p))"
  by (simp add: drawPixel_def setPixel_toggle lit_def cellval_toggle)

lemma drawCols_reports:
  "(v s 0xF = 1 \<longrightarrow> v (drawCols x y row col sprite s) 0xF = 1) \<and>
   (v (drawCols x y row col sprite s) 0xF \<noteq> 1 \<longrightarrow>
      (\<forall>p. lit (renderer s) p \<longrightarrow> lit (renderer (drawCols x y row col sprite s)) p))"
proof (induction x y row col sprite s rule: drawCols.induct)
  case (1 x y row col sprite s)
  show ?case
  proof (cases "col < 8")
    case True
    have e: "drawCols x y row col sprite s =
        drawCols x y row (col + 1) (push_bit 1 sprite) (drawPixel x y row col sprite s)"
      using True by (subst drawCols.simps) simp
    from "1.IH" [OF True] drawPixel_reports [of s x y row col sprite]
    show ?thesis unfolding e by blast
  next
    case False
    then show ?thesis by (subst (1 2 3) drawCols.simps) simp
  qed
qed

lemma drawRows_reports:
  "(v s 0xF = 1 \<longrightarrow> v (drawRows x y height row s) 0xF = 1) \<and>
   (v (drawRows x y height row s) 0xF \<noteq> 1 \<longrightarrow>
      (\<forall>p. lit (renderer s) p \<longrightarrow> lit (renderer (drawRows x y height row s)) p))"
proof (induction x y height row s rule: drawRows.induct)
  case (1 x y height row s)
  show ?case
  proof (cases "row < height")
    case True
    let ?t = "drawCols x y row 0 (byte_val (mem_read (memory s) (i s + int row))) s"
    have e: "drawRows x y height row s = drawRows x y height (row + 1) ?t"
      using True by (subst drawRows.simps) simp
    from "1.IH" [OF True]
      drawCols_reports [of s x y row 0 "byte_val (mem_read (memory s) (i s + int row))"]
    show ?thesis unfolding e by blast
  next
    case False
    then show ?thesis by (subst (1 2 3) drawRows.simps) simp
  qed
qed


subsection \<open>The display as a fold\<close>

text \<open>
  The scan writes no register but \<open>VF\<close>, and neither memory nor \<open>I\<close>. When the position
  registers are not \<open>VF\<close>, the cells it toggles are therefore fixed by the state it starts
  from.
\<close>

lemma drawPixel_frame:
  "memory (drawPixel x y row col sprite s) = memory s"
  "i (drawPixel x y row col sprite s) = i s"
  "k \<noteq> 0xF \<Longrightarrow> v (drawPixel x y row col sprite s) k = v s k"
  by (simp_all add: drawPixel_def split: prod.split)

lemma drawPixel_display:
  "display (renderer (drawPixel x y row col sprite s)) =
     (if (sprite AND 0x80) > 0
      then toggle (pixelLoc (uint (v s x) + int col) (uint (v s y) + int row)) (display (renderer s))
      else display (renderer s))"
  by (simp add: drawPixel_def setPixel_toggle)

lemma drawCols_fold:
  assumes "x \<noteq> 0xF" and "y \<noteq> 0xF"
  shows "display (renderer (drawCols x y row col sprite s)) =
           fold toggle (locsCols (uint (v s x)) (uint (v s y)) row col sprite)
             (display (renderer s)) \<and>
         memory (drawCols x y row col sprite s) = memory s \<and>
         i (drawCols x y row col sprite s) = i s \<and>
         v (drawCols x y row col sprite s) x = v s x \<and>
         v (drawCols x y row col sprite s) y = v s y"
  using assms
proof (induction x y row col sprite s rule: drawCols.induct)
  case (1 x y row col sprite s)
  note xy = "1.prems"
  show ?case
  proof (cases "col < 8")
    case True
    have e: "drawCols x y row col sprite s =
        drawCols x y row (col + 1) (push_bit 1 sprite) (drawPixel x y row col sprite s)"
      using True by (subst drawCols.simps) simp
    have l: "locsCols (uint (v s x)) (uint (v s y)) row col sprite =
        (if (sprite AND 0x80) > 0
         then [pixelLoc (uint (v s x) + int col) (uint (v s y) + int row)] else []) @
        locsCols (uint (v s x)) (uint (v s y)) row (col + 1) (push_bit 1 sprite)"
      using True by (subst locsCols.simps) simp
    from "1.IH" [OF True xy] xy show ?thesis
      unfolding e l by (simp add: drawPixel_frame drawPixel_display)
  next
    case False
    then show ?thesis
      by (subst (1 2 3 4 5) drawCols.simps, subst locsCols.simps) simp
  qed
qed

lemma drawRows_fold:
  assumes "x \<noteq> 0xF" and "y \<noteq> 0xF"
  shows "display (renderer (drawRows x y height row s)) =
           fold toggle (locsRows (memory s) (i s) (uint (v s x)) (uint (v s y)) height row)
             (display (renderer s)) \<and>
         memory (drawRows x y height row s) = memory s \<and>
         i (drawRows x y height row s) = i s \<and>
         v (drawRows x y height row s) x = v s x \<and>
         v (drawRows x y height row s) y = v s y"
  using assms
proof (induction x y height row s rule: drawRows.induct)
  case (1 x y height row s)
  note xy = "1.prems"
  show ?case
  proof (cases "row < height")
    case True
    let ?b = "byte_val (mem_read (memory s) (i s + int row))"
    let ?t = "drawCols x y row 0 ?b s"
    have e: "drawRows x y height row s = drawRows x y height (row + 1) ?t"
      using True by (subst drawRows.simps) simp
    have l: "locsRows (memory s) (i s) (uint (v s x)) (uint (v s y)) height row =
        locsCols (uint (v s x)) (uint (v s y)) row 0 ?b @
        locsRows (memory s) (i s) (uint (v s x)) (uint (v s y)) height (row + 1)"
      using True by (subst locsRows.simps) simp
    have c: "display (renderer ?t) =
        fold toggle (locsCols (uint (v s x)) (uint (v s y)) row 0 ?b) (display (renderer s))"
      "memory ?t = memory s" "i ?t = i s" "v ?t x = v s x" "v ?t y = v s y"
      using drawCols_fold [OF xy, of row 0 ?b s] by simp_all
    have h: "display (renderer (drawRows x y height (row + 1) ?t)) =
        fold toggle (locsRows (memory ?t) (i ?t) (uint (v ?t x)) (uint (v ?t y)) height (row + 1))
          (display (renderer ?t))"
      "memory (drawRows x y height (row + 1) ?t) = memory ?t"
      "i (drawRows x y height (row + 1) ?t) = i ?t"
      "v (drawRows x y height (row + 1) ?t) x = v ?t x"
      "v (drawRows x y height (row + 1) ?t) y = v ?t y"
      using "1.IH" [OF True xy] by simp_all
    show ?thesis
      unfolding e l h c by simp
  next
    case False
    then show ?thesis
      by (subst (1 2 3 4 5) drawRows.simps, subst locsRows.simps) simp
  qed
qed

lemma exec_class_D:
  assumes "opcode AND 0xF000 = 0xD000"
  shows "executeInstruction rnd s opcode =
    Inr (drawRows (op_x opcode) (op_y opcode) (nat (opcode AND 0xF)) 0
           (s\<lparr> pc := js_add (pc s) 2, v := (v s)(0xF := 0) \<rparr>))"
  using assms by (simp add: executeInstruction_def exec_D000_def)

subsection \<open>The instruction\<close>

text \<open>Evaluating a draw on the fresh machine, whose memory starts with the font.\<close>

lemma machine0_memory_0: "mem_read (memory machine0) 0 = Some 0xF0"
  by (simp add: machine0_def loadSpritesIntoMemory_def newCPU_def sprites_def mem_write_def
      mem_read_def)

lemmas draw_eval =
  drawRows.simps drawCols.simps drawPixel_def setPixel_def cols_def rows_def cellval_def
  machine0_fields machine0_memory_0 byte_val_def newRenderer_def op_x_def op_y_def js_add_def

text \<open>
  What holds of every \<open>Dxyn\<close>. The instruction returns normally; it is the scan run from
  the state in which PC is advanced and \<open>VF\<close> is 0; afterwards \<open>VF\<close> is 1 if some
  \<^verbatim>\<open>setPixel\<close> call of the scan returned true (it turned a lit pixel off) and 0 otherwise;
  and whenever a pixel that was lit before the draw is not lit after it, \<open>VF\<close> is 1.
  When neither \<open>x\<close> nor \<open>y\<close> is \<open>0xF\<close>, executing the same instruction a second time
  restores every cell of the display to the value it had before the first draw, and
  that second draw leaves \<open>VF = 1\<close> whenever it turned a lit pixel off.
\<close>

lemma draw_Dxyn:
  assumes "opcode AND 0xF000 = 0xD000"
    and "x = op_x opcode" and "y = op_y opcode" and "n = nat (opcode AND 0xF)"
    and "s0 = s\<lparr> pc := js_add (pc s) 2, v := (v s)(0xF := 0) \<rparr>"
  shows "\<exists>s1. executeInstruction rnd s opcode = Inr s1 \<and>
           s1 = drawRows x y n 0 s0 \<and>
           v s1 0xF = (if anyErasedRows x y n 0 s0 then 1 else 0) \<and>
           ((\<exists>p. lit (renderer s) p \<and> \<not> lit (renderer s1) p) \<longrightarrow> v s1 0xF = 1) \<and>
           (x \<noteq> 0xF \<and> y \<noteq> 0xF \<longrightarrow>
              (\<exists>s2. executeInstruction rnd' s1 opcode = Inr s2 \<and>
                 (\<forall>p. cellval (display (renderer s2)) p = cellval (display (renderer s)) p) \<and>
                 (\<forall>p. lit (renderer s2) p = lit (renderer s) p) \<and>
                 ((\<exists>p. lit (renderer s1) p \<and> \<not> lit (renderer s2) p) \<longrightarrow> v s2 0xF = 1)))"
proof -
  let ?s1 = "drawRows x y n 0 s0"
  let ?t0 = "?s1\<lparr> pc := js_add (pc ?s1) 2, v := (v ?s1)(0xF := 0) \<rparr>"
  let ?s2 = "drawRows x y n 0 ?t0"
  have e1: "executeInstruction rnd s opcode = Inr ?s1"
    unfolding exec_class_D [OF assms(1)] assms(2-5) ..
  have e2: "executeInstruction rnd' ?s1 opcode = Inr ?s2"
    unfolding exec_class_D [OF assms(1)] assms(2-5) ..
  have vf: "v ?s1 0xF = (if anyErasedRows x y n 0 s0 then 1 else 0)"
    by (simp add: drawRows_VF assms(5))
  have r1: "(\<exists>p. lit (renderer s) p \<and> \<not> lit (renderer ?s1) p) \<longrightarrow> v ?s1 0xF = 1"
    using drawRows_reports [of s0 x y n 0] by (auto simp add: assms(5))
  have r2: "(\<exists>p. lit (renderer ?s1) p \<and> \<not> lit (renderer ?s2) p) \<longrightarrow> v ?s2 0xF = 1"
    using drawRows_reports [of ?t0 x y n 0] by auto
  have restore: "\<forall>p. cellval (display (renderer ?s2)) p = cellval (display (renderer s)) p"
    if xy: "x \<noteq> 0xF" "y \<noteq> 0xF"
  proof -
    let ?L = "locsRows (memory s) (i s) (uint (v s x)) (uint (v s y)) n 0"
    have f1: "display (renderer ?s1) = fold toggle ?L (display (renderer s))"
      "memory ?s1 = memory s" "i ?s1 = i s" "v ?s1 x = v s x" "v ?s1 y = v s y"
      using drawRows_fold [OF xy, of n 0 s0] xy by (simp_all add: assms(5))
    have f2: "display (renderer ?s2) = fold toggle ?L (display (renderer ?s1))"
      using drawRows_fold [OF xy, of n 0 ?t0] xy f1(2-5) by simp
    show ?thesis
      unfolding f2 f1(1) by (simp add: cellval_fold_toggle_twice)
  qed
  from e1 e2 vf r1 r2 restore show ?thesis
    by (auto simp add: lit_def)
qed

text \<open>
  For instance, on the fresh machine \<open>D011\<close> draws the font byte \<open>0xF0\<close> at
  \<open>(V0, V1) = (0, 0)\<close>: cell 0 is lit and \<open>VF\<close> is 0. The same instruction again turns cell 0
  off, leaves \<open>VF = 1\<close>, and the screen is the original one.
\<close>

lemma draw_Dxyn_example:
  "(0xD011 :: int) AND 0xF000 = 0xD000 \<and> op_x 0xD011 = 0 \<and> op_y 0xD011 = 1 \<and>
   nat (0xD011 AND 0xF) = 1 \<and>
   (\<exists>s1 s2. executeInstruction 0 machine0 0xD011 = Inr s1 \<and>
      executeInstruction 0 s1 0xD011 = Inr s2 \<and>
      lit (renderer s1) 0 \<and> v s1 0xF = 0 \<and>
      \<not> lit (renderer s2) 0 \<and> v s2 0xF = 1 \<and>
      (\<forall>p. lit (renderer s2) p = lit (renderer machine0) p))"
proof -
  let ?s0 = "machine0\<lparr> pc := js_add (pc machine0) 2, v := (v machine0)(0xF := 0) \<rparr>"
  have h: "(0xD011 :: int) AND 0xF000 = 0xD000" "0 = op_x 0xD011" "1 = op_y 0xD011"
    "1 = nat (0xD011 AND 0xF)"
    by (simp_all add: op_x_def op_y_def)
  have xy: "(0::nat) \<noteq> 0xF \<and> (1::nat) \<noteq> 0xF" by simp
  from draw_Dxyn [where s = machine0 and rnd = 0 and rnd' = 0, OF h refl]
  obtain s1 where s1: "executeInstruction 0 machine0 0xD011 = Inr s1"
    "s1 = drawRows 0 1 1 0 ?s0"
    and r: "(0::nat) \<noteq> 0xF \<and> (1::nat) \<noteq> 0xF \<longrightarrow>
      (\<exists>s2. executeInstruction 0 s1 0xD011 = Inr s2 \<and>
         (\<forall>p. cellval (display (renderer s2)) p = cellval (display (renderer machine0)) p) \<and>
         (\<forall>p. lit (renderer s2) p = lit (renderer machine0) p) \<and>
         ((\<exists>p. lit (renderer s1) p \<and> \<not> lit (renderer s2) p) \<longrightarrow> v s2 0xF = 1))"
    by blast
  from r xy obtain s2 where s2: "executeInstruction 0 s1 0xD011 = Inr s2"
    "\<forall>p. lit (renderer s2) p = lit (renderer machine0) p"
    "(\<exists>p. lit (renderer s1) p \<and> \<not> lit (renderer s2) p) \<longrightarrow> v s2 0xF = 1"
    by blast
  have a: "lit (renderer s1) 0" "v s1 0xF = 0"
    unfolding s1(2) by (simp_all add: draw_eval lit_def)
  have b: "\<not> lit (renderer s2) 0"
    using s2(2) by (simp add: machine0_fields newRenderer_def lit_def cellval_def)
  from draw_Dxyn [where s = s1 and rnd = 0 and rnd' = 0, OF h refl] s2(1)
  have o: "(\<exists>p. lit (renderer s1) p \<and> \<not> lit (renderer s2) p) \<longrightarrow> v s2 0xF = 1"
    by auto
  from a b o s2(3) have c: "v s2 0xF = 1" by blast
  from h s1 s2 a b c show ?thesis by auto
qed

text \<open>
  Claim C8: \<open>Dxyn\<close> clears \<open>VF\<close> to 0 before scanning, then sets \<open>VF\<close> to 1 iff at least
  one toggle-pixel call of the draw turned a previously-on pixel off; consequently,
  drawing the same sprite twice at the same location restores the original screen state,
  and the second draw reports \<open>VF = 1\<close> whenever pixels actually turned off.

  The part about \<open>VF\<close> holds on the code, and so does the consequence when neither
  position register is \<open>VF\<close>. When one is, the code breaks the consequence: the scan does
  not read the position once, it reads \<^verbatim>\<open>this.v[x]\<close> and \<^verbatim>\<open>this.v[y]\<close> again at every
  \<^verbatim>\<open>setPixel\<close> call, after \<^verbatim>\<open>this.v[0xF] = 0\<close> and after a collision has set \<open>VF\<close> to 1.
  On the fresh machine (\<open>I = 0\<close>, where the font has the byte \<open>0xF0\<close>; all registers 0; a
  blank screen) both draws of \<open>DF01\<close> start at \<open>(0, 0)\<close>. The first lights cells 0 to 3.
  The second turns cell 0 off, which sets \<open>VF\<close> to 1, so its next three pixels go to cells
  2, 3 and 4: cell 1 stays lit. With \<open>D0F1\<close>, where \<open>VF\<close> is the row, the second draw
  turns cell 0 off and then toggles cells 65 to 67 in row 1: cell 1 stays lit as well.
  In both runs the screen after the second draw is not the original, blank one.
\<close>

theorem draw_twice_VF_position:
  "\<not> lit (renderer machine0) 1 \<and>
   \<not> isl (executeInstruction 0 machine0 0xDF01) \<and>
   \<not> isl (executeInstruction 0 (projr (executeInstruction 0 machine0 0xDF01)) 0xDF01) \<and>
   lit (renderer
      (projr (executeInstruction 0 (projr (executeInstruction 0 machine0 0xDF01)) 0xDF01))) 1 \<and>
   \<not> isl (executeInstruction 0 machine0 0xD0F1) \<and>
   \<not> isl (executeInstruction 0 (projr (executeInstruction 0 machine0 0xD0F1)) 0xD0F1) \<and>
   lit (renderer
      (projr (executeInstruction 0 (projr (executeInstruction 0 machine0 0xD0F1)) 0xD0F1))) 1"
proof -
  let ?s1 = "machine0
      \<lparr> pc := Num 514, v := (\<lambda>_. 0)(15 := 0),
        renderer := \<lparr> scale = 10, display = [0 \<mapsto> 1, 1 \<mapsto> 1, 2 \<mapsto> 1, 3 \<mapsto> 1],
                      canvas = [] \<rparr> \<rparr>"
  have m: "(0xDF01 :: int) AND 0xF000 = 0xD000" and n: "(0xD0F1 :: int) AND 0xF000 = 0xD000"
    by simp_all
  have e0: "\<not> lit (renderer machine0) 1"
    by (simp add: machine0_fields newRenderer_def lit_def cellval_def)
  have x1: "executeInstruction 0 machine0 0xDF01 = Inr ?s1"
    unfolding exec_class_D [OF m] by (simp add: draw_eval)
  have x2: "lit (renderer (projr (executeInstruction 0 ?s1 0xDF01))) 1"
    unfolding exec_class_D [OF m] by (simp add: draw_eval lit_def)
  have x3: "\<not> isl (executeInstruction 0 ?s1 0xDF01)"
    unfolding exec_class_D [OF m] by simp
  have y1: "executeInstruction 0 machine0 0xD0F1 = Inr ?s1"
    unfolding exec_class_D [OF n] by (simp add: draw_eval)
  have y2: "lit (renderer (projr (executeInstruction 0 ?s1 0xD0F1))) 1"
    unfolding exec_class_D [OF n] by (simp add: draw_eval lit_def)
  have y3: "\<not> isl (executeInstruction 0 ?s1 0xD0F1)"
    unfolding exec_class_D [OF n] by simp
  show ?thesis
    unfolding x1 y1 using e0 x2 x3 y2 y3 by simp
qed

end
